theory Spec2Isabelle
  imports Main "HOL-Library.Word"
begin

unbundle bit_operations_syntax

section \<open>Row padding for texture-to-buffer copies\<close>

text \<open>
  The capture helpers \<^verbatim>\<open>getRowPadding\<close>, \<^verbatim>\<open>createCapture\<close> and
  \<^verbatim>\<open>copyToBuffer\<close> work on texture dimensions, which are integer-valued
  Numbers. They are modelled as \<^typ>\<open>int\<close>: in the range where Numbers hold
  integers exactly, the products, remainders and sums below are exact. Widths that
  are not integers are outside this model.

  The remainder operator \<^verbatim>\<open>%\<close> of the source truncates towards zero: the
  result takes the sign of the dividend. It differs from the \<open>mod\<close> of HOL (which
  takes the sign of the divisor) on negative dividends, so it is written out.
\<close>

definition js_rem :: "int \<Rightarrow> int \<Rightarrow> int" where
  "js_rem a b = sgn a * (\<bar>a\<bar> mod \<bar>b\<bar>)"

record row_padding =
  unpadded :: int
  padded :: int

text \<open>
  \<^verbatim>\<open>
  function getRowPadding(width) {
      const bytesPerPixel = 4
      const unpaddedBytesPerRow = width * bytesPerPixel
      const align = 256
      const paddedBytesPerRowPadding = (align - unpaddedBytesPerRow % align) % align
      const paddedBytesPerRow = unpaddedBytesPerRow + paddedBytesPerRowPadding
      return { unpadded: unpaddedBytesPerRow, padded: paddedBytesPerRow }
  }
  \<close>
\<close>

definition getRowPadding :: "int \<Rightarrow> row_padding" where
  "getRowPadding width =
     (let bytesPerPixel = 4;
          unpaddedBytesPerRow = width * bytesPerPixel;
          align = 256;
          paddedBytesPerRowPadding = js_rem (align - js_rem unpaddedBytesPerRow align) align;
          paddedBytesPerRow = unpaddedBytesPerRow + paddedBytesPerRowPadding
      in \<lparr> unpadded = unpaddedBytesPerRow, padded = paddedBytesPerRow \<rparr>)"

text \<open>
  The row-size formula as the specification words it, with the mathematical
  \<open>mod\<close>: \<open>padded = unpadded + ((256 - unpadded mod 256) mod 256)\<close>.
\<close>

definition spec_padded :: "int \<Rightarrow> int" where
  "spec_padded u = u + ((256 - u mod 256) mod 256)"


section \<open>The capture helpers and the objects they call\<close>

text \<open>
  The module object \<^verbatim>\<open>gpu\<close> comes from the native binding
  (\<^verbatim>\<open>require("./")\<close>). Of its contents the code reads the two tables of usage
  flags; everything else stays abstract in the record's extension. The flags are
  combined with \<^verbatim>\<open>|\<close>, which works on 32-bit integers.
\<close>

record buffer_usage_flags =
  MAP_READ :: "32 word"
  COPY_DST :: "32 word"

record texture_usage_flags =
  RENDER_ATTACHMENT :: "32 word"
  COPY_SRC :: "32 word"

record gpu_module =
  GPUBufferUsage :: buffer_usage_flags
  GPUTextureUsage :: texture_usage_flags

record dimensions =
  width :: int
  height :: int

text \<open>The descriptors that \<^verbatim>\<open>createCapture\<close> builds, field by field.\<close>

record buffer_descriptor =
  buffer_label :: string
  buffer_size :: int
  buffer_usage :: "32 word"

record texture_descriptor =
  texture_label :: string
  texture_size :: dimensions
  texture_format :: string
  texture_usage :: "32 word"

datatype gpu_buffer = Buffer nat
datatype gpu_texture = Texture nat

text \<open>
  Modelled from the spec: \<^verbatim>\<open>device.createBuffer\<close> and
  \<^verbatim>\<open>device.createTexture\<close> belong to the native binding and are not in the
  source. The specification's Resource Store allocates and tracks a handle for each
  resource created with a descriptor. The device is modelled as the sequence of
  creation requests it has received; the handle returned is the position of the
  request. What the binding validates is not modelled.
\<close>

datatype device_call = CreateBuffer buffer_descriptor | CreateTexture texture_descriptor

type_synonym device = "device_call list"

definition createBuffer :: "device \<Rightarrow> buffer_descriptor \<Rightarrow> device \<times> gpu_buffer" where
  "createBuffer dev descriptor = (dev @ [CreateBuffer descriptor], Buffer (length dev))"

definition createTexture :: "device \<Rightarrow> texture_descriptor \<Rightarrow> device \<times> gpu_texture" where
  "createTexture dev descriptor = (dev @ [CreateTexture descriptor], Texture (length dev))"

text \<open>The descriptor a buffer handle was created with, if the device created it.\<close>

definition buffer_of :: "device \<Rightarrow> gpu_buffer \<Rightarrow> buffer_descriptor option" where
  "buffer_of dev b =
     (case b of Buffer i \<Rightarrow>
        if i < length dev
        then (case dev ! i of CreateBuffer d \<Rightarrow> Some d | CreateTexture _ \<Rightarrow> None)
        else None)"

record capture =
  outputBuffer :: gpu_buffer
  texture :: gpu_texture

text \<open>
  \<^verbatim>\<open>
  function createCapture(device, dimensions) {
      const { padded } = getRowPadding(dimensions.width)
      const outputBuffer = device.createBuffer({
          label: "Capture",
          size: padded * dimensions.height,
          usage: GPUBufferUsage.MAP_READ | GPUBufferUsage.COPY_DST,
      })
      const texture = device.createTexture({
          label: "Capture",
          size: dimensions,
          format: "rgba8unorm-srgb",
          usage: GPUTextureUsage.RENDER_ATTACHMENT | GPUTextureUsage.COPY_SRC,
      })
      return { outputBuffer, texture }
  }
  \<close>
  The device is mutated by the two calls, so it is passed in and returned.
\<close>

definition createCapture :: "'m gpu_module_scheme \<Rightarrow> device \<Rightarrow> dimensions \<Rightarrow> device \<times> capture" where
  "createCapture gpu dev dims =
     (let r = getRowPadding (width dims);
          (dev1, outputBuffer) = createBuffer dev
             \<lparr> buffer_label = ''Capture'',
               buffer_size = padded r * height dims,
               buffer_usage = MAP_READ (GPUBufferUsage gpu) OR COPY_DST (GPUBufferUsage gpu) \<rparr>;
          (dev2, texture) = createTexture dev1
             \<lparr> texture_label = ''Capture'',
               texture_size = dims,
               texture_format = ''rgba8unorm-srgb'',
               texture_usage =
                 RENDER_ATTACHMENT (GPUTextureUsage gpu) OR COPY_SRC (GPUTextureUsage gpu) \<rparr>
      in (dev2, \<lparr> outputBuffer = outputBuffer, texture = texture \<rparr>))"

record image_copy_texture =
  source_texture :: gpu_texture

record image_copy_buffer =
  destination_buffer :: gpu_buffer
  bytesPerRow :: int
  rowsPerImage :: int

text \<open>
  Modelled from the spec: \<^verbatim>\<open>encoder.copyTextureToBuffer\<close> belongs to the native
  binding and is not in the source. The specification's command encoder records a
  sequence of operations into an in-memory command list; the encoder is modelled as
  that list, and the call appends the operation with its three arguments. The
  validation the specification asks of it is not modelled.
\<close>

datatype encoder_call = CopyTextureToBuffer image_copy_texture image_copy_buffer dimensions

type_synonym encoder = "encoder_call list"

definition copyTextureToBuffer ::
  "encoder \<Rightarrow> image_copy_texture \<Rightarrow> image_copy_buffer \<Rightarrow> dimensions \<Rightarrow> encoder" where
  "copyTextureToBuffer enc source destination copySize =
     enc @ [CopyTextureToBuffer source destination copySize]"

fun destination :: "encoder_call \<Rightarrow> image_copy_buffer" where
  "destination (CopyTextureToBuffer source dest copySize) = dest"

fun copySize :: "encoder_call \<Rightarrow> dimensions" where
  "copySize (CopyTextureToBuffer source dest sz) = sz"

text \<open>
  \<^verbatim>\<open>
  function copyToBuffer(encoder, texture, buffer, dimensions) {
      const { padded } = getRowPadding(dimensions.width)
      encoder.copyTextureToBuffer(
          { texture },
          { buffer, bytesPerRow: padded, rowsPerImage: 0 },
          dimensions,
      )
  }
  \<close>
\<close>

definition copyToBuffer :: "encoder \<Rightarrow> gpu_texture \<Rightarrow> gpu_buffer \<Rightarrow> dimensions \<Rightarrow> encoder" where
  "copyToBuffer enc tex buf dims =
     (let r = getRowPadding (width dims)
      in copyTextureToBuffer enc
           \<lparr> source_texture = tex \<rparr>
           \<lparr> destination_buffer = buf, bytesPerRow = padded r, rowsPerImage = 0 \<rparr>
           dims)"

text \<open>The calls that an encoder received after it was in state \<open>enc\<close>.\<close>

definition calls_since :: "encoder \<Rightarrow> encoder \<Rightarrow> encoder_call list" where
  "calls_since enc enc' = drop (length enc) enc'"


section \<open>Values, promises and sets of the host language\<close>

text \<open>
  The values that the conformance shim hands around: \<^verbatim>\<open>undefined\<close>,
  \<^verbatim>\<open>null\<close>, strings (an error filter is one), and error objects with the name
  of their class and their message.
\<close>

datatype js_value = Undefined | Null | Str string | ErrorObject string string

text \<open>A call either throws a value (\<open>Inl\<close>) or returns one (\<open>Inr\<close>).\<close>

type_synonym completion = "js_value + js_value"

text \<open>
  A promise is pending until one of its two resolving functions is called; the first
  call settles it and later calls are ignored.
\<close>

datatype 'a promise_state = Pending | Fulfilled 'a | Rejected 'a

datatype 'a settle_call = Resolve 'a | Reject 'a

fun settle :: "'a settle_call \<Rightarrow> 'a promise_state \<Rightarrow> 'a promise_state" where
  "settle (Resolve v) Pending = Fulfilled v"
| "settle (Reject e) Pending = Rejected e"
| "settle c s = s"

text \<open>
  \<^verbatim>\<open>new Promise(executor)\<close> creates the two resolving functions of the new
  promise and calls the executor with them. What an executor does with them is:
  the calls it makes while it runs, and the resolving functions it stores where
  later code can reach them. Nothing but a resolving function settles a promise.
\<close>

record 'a executor_run =
  called :: "'a settle_call list"
  kept :: "('a \<Rightarrow> 'a settle_call) list"

type_synonym 'a executor =
  "('a \<Rightarrow> 'a settle_call) \<Rightarrow> ('a \<Rightarrow> 'a settle_call) \<Rightarrow> 'a executor_run"

record 'a promise =
  promise_state :: "'a promise_state"
  resolvers :: "('a \<Rightarrow> 'a settle_call) list"

definition new_Promise :: "'a executor \<Rightarrow> 'a promise" where
  "new_Promise executor =
     (let run = executor Resolve Reject
      in \<lparr> promise_state = fold settle (called run) Pending, resolvers = kept run \<rparr>)"

text \<open>
  An event after the construction can act on a promise only through the resolving
  functions that are still reachable. \<open>notify v\<close> is the most such an event can do:
  every reachable resolving function is called with \<open>v\<close>.
\<close>

definition notify :: "'a \<Rightarrow> 'a promise \<Rightarrow> 'a promise" where
  "notify v p = p \<lparr> promise_state := fold (\<lambda>r. settle (r v)) (resolvers p) (promise_state p) \<rparr>"

text \<open>
  Awaiting a settled promise resumes with its value or throws its reason; awaiting
  a pending one does not resume. Awaiting a value that is not a promise resumes with
  that value.
\<close>

datatype 'a outcome = Resolved 'a | Raised 'a | Unsettled

fun await_promise :: "'a promise \<Rightarrow> 'a outcome" where
  "await_promise p =
     (case promise_state p of
        Pending \<Rightarrow> Unsettled
      | Fulfilled v \<Rightarrow> Resolved v
      | Rejected e \<Rightarrow> Raised e)"

fun await :: "completion \<Rightarrow> js_value outcome" where
  "await (Inl e) = Raised e"
| "await (Inr v) = Resolved v"

text \<open>The no-error outcome of popping an error scope: resolved, and with no error object.\<close>

fun no_error :: "js_value outcome \<Rightarrow> bool" where
  "no_error (Resolved Undefined) = True"
| "no_error (Resolved Null) = True"
| "no_error out = False"

text \<open>
  A \<^verbatim>\<open>Set\<close> keeps its elements in insertion order without duplicates. It is a
  mutable object: \<^verbatim>\<open>add\<close> changes the set it is called on.
\<close>

type_synonym js_set = "string list"

definition new_Set :: js_set where
  "new_Set = []"

definition Set_add :: "string \<Rightarrow> js_set \<Rightarrow> js_set" where
  "Set_add v s = (if v \<in> set s then s else s @ [v])"


section \<open>The conformance-suite shim\<close>

text \<open>
  \<^verbatim>\<open>
  const gpu = require("./")
  exports.create = (flags) => gpu

  gpu.GPUAdapter.prototype.features = new Set()
  gpu.GPUDevice.prototype.lost = new Promise(() => {})
  gpu.GPUDevice.prototype.pushErrorScope = () => {}
  gpu.GPUDevice.prototype.popErrorScope = () => {}

  globalThis.GPUBufferUsage = gpu.GPUBufferUsage
  globalThis.GPUValidationError = class GPUValidationError extends Error {}
  \<close>
  Loading the module leaves behind the objects below. The feature set and the
  \<^verbatim>\<open>lost\<close> promise are created once and stored on the prototypes, so every
  adapter and every device reads the same object. An instance of the error class of
  the last line is an \<^const>\<open>ErrorObject\<close> named \<open>''GPUValidationError''\<close>;
  the shim defines the class and never creates an instance.
\<close>

record ('m, 'a) shim =
  gpu :: "'m gpu_module_scheme"
  GPUAdapter_features :: js_set
  GPUDevice_lost :: "'a promise"
  global_GPUBufferUsage :: buffer_usage_flags

text \<open>The executor \<^verbatim>\<open>() => {}\<close> takes no parameters and has an empty body.\<close>

definition empty_executor :: "'a executor" where
  "empty_executor resolve reject = \<lparr> called = [], kept = [] \<rparr>"

definition load :: "'m gpu_module_scheme \<Rightarrow> ('m, 'a) shim" where
  "load g =
     \<lparr> gpu = g,
       GPUAdapter_features = new_Set,
       GPUDevice_lost = new_Promise empty_executor,
       global_GPUBufferUsage = GPUBufferUsage g \<rparr>"

definition create :: "('m, 'a) shim \<Rightarrow> 'f \<Rightarrow> 'm gpu_module_scheme" where
  "create m flags = gpu m"

text \<open>
  The two error-scope methods are arrow functions with no parameters and an empty
  body: they read neither their arguments nor the device, change nothing and return
  \<^verbatim>\<open>undefined\<close>. The state \<open>'s\<close> is everything a call could have changed.
\<close>

definition pushErrorScope :: "'s \<Rightarrow> js_value list \<Rightarrow> 's \<times> completion" where
  "pushErrorScope s args = (s, Inr Undefined)"

definition popErrorScope :: "'s \<Rightarrow> js_value list \<Rightarrow> 's \<times> completion" where
  "popErrorScope s args = (s, Inr Undefined)"

datatype scope_call = PushErrorScope js_value | PopErrorScope

fun call :: "scope_call \<Rightarrow> 's \<Rightarrow> 's \<times> completion" where
  "call (PushErrorScope f) s = pushErrorScope s [f]"
| "call PopErrorScope s = popErrorScope s []"

text \<open>A sequence of calls on a device, with the completion of each.\<close>

fun run :: "scope_call list \<Rightarrow> 's \<Rightarrow> 's \<times> completion list" where
  "run [] s = (s, [])"
| "run (c # cs) s =
     (case call c s of (s1, r) \<Rightarrow>
        (case run cs s1 of (s2, rs) \<Rightarrow> (s2, r # rs)))"

text \<open>
  Reading \<^verbatim>\<open>device.lost\<close> finds the property on the prototype, whichever the
  device. A device becomes unusable by explicit destruction or by a fault of the
  backend; the loss can reach the promise only as \<^const>\<open>notify\<close> does.
\<close>

definition lost :: "('m, 'a) shim \<Rightarrow> nat \<Rightarrow> 'a promise" where
  "lost m dev = GPUDevice_lost m"

datatype device_event = Destroyed | BackendFault

definition device_unusable :: "device_event \<Rightarrow> ('m, device_event) shim \<Rightarrow> ('m, device_event) shim" where
  "device_unusable ev m = m \<lparr> GPUDevice_lost := notify ev (GPUDevice_lost m) \<rparr>"

text \<open>
  Reading \<^verbatim>\<open>adapter.features\<close> finds the property on the prototype, whichever
  the adapter; \<^verbatim>\<open>adapter.features.add(tag)\<close> changes that one object.
\<close>

definition features :: "('m, 'a) shim \<Rightarrow> nat \<Rightarrow> js_set" where
  "features m adapter = GPUAdapter_features m"

definition features_add :: "nat \<Rightarrow> string \<Rightarrow> ('m, 'a) shim \<Rightarrow> ('m, 'a) shim" where
  "features_add adapter tag m = m \<lparr> GPUAdapter_features := Set_add tag (features m adapter) \<rparr>"


section \<open>Properties of the row padding\<close>

lemma js_rem_nonneg: "0 \<le> a \<Longrightarrow> 0 < b \<Longrightarrow> js_rem a b = a mod b"
  by (cases "a = 0") (simp_all add: js_rem_def)

lemma js_rem_neg: "a < 0 \<Longrightarrow> 0 < b \<Longrightarrow> js_rem a b = - ((- a) mod b)"
  by (simp add: js_rem_def)

lemma unpadded_getRowPadding: "unpadded (getRowPadding w) = w * 4"
  by (simp add: getRowPadding_def Let_def)

lemma padding_256: "js_rem (256 - js_rem u 256) 256 = (- u) mod 256"
proof (cases "0 \<le> u")
  case True
  then have "js_rem u 256 = u mod 256"
    by (simp add: js_rem_nonneg)
  moreover have "0 \<le> 256 - u mod 256"
    using pos_mod_bound [of 256 u] by simp
  ultimately have "js_rem (256 - js_rem u 256) 256 = (256 - u mod 256) mod 256"
    by (simp add: js_rem_nonneg)
  also have "\<dots> = (- u) mod 256"
    by (metis minus_mod_self1 mod_diff_right_eq diff_0)
  finally show ?thesis .
next
  case False
  then have "js_rem u 256 = - ((- u) mod 256)"
    by (simp add: js_rem_neg)
  moreover have "0 \<le> (- u) mod 256"
    by simp
  ultimately have "js_rem (256 - js_rem u 256) 256 = (256 + (- u) mod 256) mod 256"
    by (simp add: js_rem_nonneg)
  then show ?thesis
    by simp
qed

lemma padded_getRowPadding: "padded (getRowPadding w) = w * 4 + (- (w * 4)) mod 256"
  by (simp add: getRowPadding_def Let_def padding_256)

lemma spec_padded_eq: "spec_padded u = u + (- u) mod 256"
proof -
  have "(256 - u mod 256) mod 256 = (- u) mod 256"
    by (metis minus_mod_self1 mod_diff_right_eq diff_0)
  then show ?thesis
    by (simp add: spec_padded_def)
qed

lemma padded_aligned: "padded (getRowPadding w) mod 256 = 0"
proof -
  have "(w * 4 + (- (w * 4)) mod 256) mod 256 = (w * 4 + - (w * 4)) mod 256"
    by (simp only: mod_add_right_eq)
  then show ?thesis
    by (simp add: padded_getRowPadding)
qed

lemma padded_ge_unpadded: "w * 4 \<le> padded (getRowPadding w)"
  by (simp add: padded_getRowPadding)

text \<open>
  Claim C1. For every width, the padded row size returned by
  \<^verbatim>\<open>getRowPadding\<close> is the value of the specification's formula
  \<open>unpadded + ((256 - unpadded mod 256) mod 256)\<close> at \<open>unpadded = width * 4\<close>,
  and the returned unpadded row size is \<open>width * 4\<close>.
\<close>

theorem getRowPadding_spec_formula:
  "padded (getRowPadding w) = spec_padded (unpadded (getRowPadding w))
   \<and> unpadded (getRowPadding w) = w * 4"
  by (simp add: padded_getRowPadding unpadded_getRowPadding spec_padded_eq)

text \<open>
  Claim C2. At width 200 \<^verbatim>\<open>getRowPadding\<close> returns the unpadded row size 800
  and the padded row size 1024, and the one call that \<^verbatim>\<open>copyToBuffer\<close> makes
  for that width passes 1024 as \<^verbatim>\<open>bytesPerRow\<close>; 800 is not passed.
\<close>

theorem copyToBuffer_width_200:
  "getRowPadding 200 = \<lparr> unpadded = 800, padded = 1024 \<rparr>
   \<and> copyToBuffer enc tex buf \<lparr> width = 200, height = h \<rparr> =
       enc @ [CopyTextureToBuffer
                \<lparr> source_texture = tex \<rparr>
                \<lparr> destination_buffer = buf, bytesPerRow = 1024, rowsPerImage = 0 \<rparr>
                \<lparr> width = 200, height = h \<rparr>]
   \<and> map (bytesPerRow \<circ> destination)
         (calls_since enc (copyToBuffer enc tex buf \<lparr> width = 200, height = h \<rparr>)) = [1024]
   \<and> 800 \<notin> set (map (bytesPerRow \<circ> destination)
         (calls_since enc (copyToBuffer enc tex buf \<lparr> width = 200, height = h \<rparr>)))"
proof -
  have r: "getRowPadding 200 = \<lparr> unpadded = 800, padded = 1024 \<rparr>"
    by (simp add: getRowPadding_def Let_def js_rem_def)
  then show ?thesis
    by (simp add: copyToBuffer_def copyTextureToBuffer_def calls_since_def Let_def)
qed

lemma calls_since_copyToBuffer:
  "calls_since enc (copyToBuffer enc tex buf dims) =
     [CopyTextureToBuffer
        \<lparr> source_texture = tex \<rparr>
        \<lparr> destination_buffer = buf, bytesPerRow = padded (getRowPadding (width dims)),
          rowsPerImage = 0 \<rparr>
        dims]"
  by (simp add: copyToBuffer_def copyTextureToBuffer_def calls_since_def Let_def)

text \<open>
  Claim C3. For every width of at least 1, the \<^verbatim>\<open>bytesPerRow\<close> that
  \<^verbatim>\<open>copyToBuffer\<close> passes to \<^verbatim>\<open>copyTextureToBuffer\<close> is the padded row
  size of \<^verbatim>\<open>getRowPadding\<close>; it is a multiple of 256 and at least 4 bytes per
  pixel times the width.
\<close>

theorem copyToBuffer_bytesPerRow_valid:
  assumes "1 \<le> width dims"
  shows "map (bytesPerRow \<circ> destination) (calls_since enc (copyToBuffer enc tex buf dims))
           = [padded (getRowPadding (width dims))]
         \<and> padded (getRowPadding (width dims)) mod 256 = 0
         \<and> 4 * width dims \<le> padded (getRowPadding (width dims))"
  using padded_ge_unpadded [of "width dims"]
  by (simp add: calls_since_copyToBuffer padded_aligned)

theorem copyToBuffer_bytesPerRow_valid_witness:
  "(1::int) \<le> width \<lparr> width = 3, height = 2 \<rparr>
   \<and> map (bytesPerRow \<circ> destination)
        (calls_since [] (copyToBuffer [] (Texture 1) (Buffer 0) \<lparr> width = 3, height = 2 \<rparr>)) = [256]
   \<and> padded (getRowPadding 3) mod 256 = 0
   \<and> 4 * 3 \<le> padded (getRowPadding 3)"
proof -
  have h: "(1::int) \<le> width \<lparr> width = 3, height = 2 \<rparr>"
    by simp
  have p: "padded (getRowPadding 3) = 256"
    by (simp add: getRowPadding_def Let_def js_rem_def)
  show ?thesis
    using h p copyToBuffer_bytesPerRow_valid [OF h, of "[]" "Texture 1" "Buffer 0"]
    by simp
qed

text \<open>
  Claim C8. Padding is idempotent: for every width whose unpadded row size
  \<open>width * 4\<close> is already a multiple of 256, \<^verbatim>\<open>getRowPadding\<close> returns a
  padded size equal to the unpadded one; and the padded row size of any width,
  taken as the row of \<open>padded / 4\<close> pixels, is padded to itself.
\<close>

theorem getRowPadding_idempotent:
  "(256 dvd w * 4 \<longrightarrow> padded (getRowPadding w) = unpadded (getRowPadding w))
   \<and> padded (getRowPadding (padded (getRowPadding w) div 4)) = padded (getRowPadding w)"
proof -
  have fixed: "padded (getRowPadding v) = v * 4" if "256 dvd v * 4" for v
  proof -
    from that have "256 dvd - (v * 4)"
      by (simp only: dvd_minus_iff)
    then have "(- (v * 4)) mod 256 = 0"
      by (simp only: mod_eq_0_iff_dvd)
    then show ?thesis
      by (simp add: padded_getRowPadding)
  qed
  have al: "256 dvd padded (getRowPadding w)"
    using padded_aligned [of w] by (simp only: mod_eq_0_iff_dvd)
  then have "4 dvd padded (getRowPadding w)"
    by (rule dvd_trans [rotated]) simp
  then have quot: "padded (getRowPadding w) div 4 * 4 = padded (getRowPadding w)"
    by simp
  with al have "256 dvd padded (getRowPadding w) div 4 * 4"
    by simp
  from fixed [OF this] quot
  have "padded (getRowPadding (padded (getRowPadding w) div 4)) = padded (getRowPadding w)"
    by simp
  with fixed show ?thesis
    by (simp add: unpadded_getRowPadding)
qed

theorem getRowPadding_idempotent_witness:
  "256 dvd (64::int) * 4
   \<and> padded (getRowPadding 64) = 256
   \<and> unpadded (getRowPadding 64) = 256
   \<and> padded (getRowPadding (padded (getRowPadding 200) div 4)) = 1024"
proof -
  have h: "256 dvd (64::int) * 4"
    by simp
  have u: "unpadded (getRowPadding 64) = 256"
    by (simp add: getRowPadding_def Let_def)
  have p: "padded (getRowPadding 200) = 1024"
    by (simp add: getRowPadding_def Let_def js_rem_def)
  show ?thesis
    using h u p getRowPadding_idempotent [of 64] getRowPadding_idempotent [of 200]
    by simp
qed

lemma createCapture_eq:
  "createCapture g dev dims =
     (dev @ [CreateBuffer
               \<lparr> buffer_label = ''Capture'',
                 buffer_size = padded (getRowPadding (width dims)) * height dims,
                 buffer_usage = MAP_READ (GPUBufferUsage g) OR COPY_DST (GPUBufferUsage g) \<rparr>,
             CreateTexture
               \<lparr> texture_label = ''Capture'',
                 texture_size = dims,
                 texture_format = ''rgba8unorm-srgb'',
                 texture_usage =
                   RENDER_ATTACHMENT (GPUTextureUsage g) OR COPY_SRC (GPUTextureUsage g) \<rparr>],
      \<lparr> outputBuffer = Buffer (length dev), texture = Texture (Suc (length dev)) \<rparr>)"
  by (simp add: createCapture_def createBuffer_def createTexture_def Let_def)

lemma buffer_of_created:
  "buffer_of (dev @ [CreateBuffer d, c]) (Buffer (length dev)) = Some d"
  by (simp add: buffer_of_def nth_append)

text \<open>
  Claim C9. For dimensions with width and height of at least 1, the output buffer
  that \<^verbatim>\<open>createCapture\<close> creates has size
  \<open>getRowPadding(width).padded * height\<close>, which is \<open>bytesPerRow * height\<close> for
  the \<^verbatim>\<open>bytesPerRow\<close> that \<^verbatim>\<open>copyToBuffer\<close> encodes for the same
  dimensions and that buffer; so the rows of the copy, the last of them unpadded, fit
  in the buffer.
\<close>

theorem createCapture_buffer_fits_copy:
  assumes "1 \<le> width dims" and "1 \<le> height dims"
    and "createCapture g dev dims = (dev', cap)"
  shows "\<exists>d c. buffer_of dev' (outputBuffer cap) = Some d
           \<and> buffer_size d = padded (getRowPadding (width dims)) * height dims
           \<and> calls_since enc (copyToBuffer enc (texture cap) (outputBuffer cap) dims) = [c]
           \<and> destination_buffer (destination c) = outputBuffer cap
           \<and> bytesPerRow (destination c) * height (copySize c) = buffer_size d
           \<and> bytesPerRow (destination c) * (height (copySize c) - 1) + 4 * width (copySize c)
                \<le> buffer_size d"
proof -
  let ?p = "padded (getRowPadding (width dims))"
  let ?d = "\<lparr> buffer_label = ''Capture'', buffer_size = ?p * height dims,
              buffer_usage = MAP_READ (GPUBufferUsage g) OR COPY_DST (GPUBufferUsage g) \<rparr>"
  let ?c = "CopyTextureToBuffer \<lparr> source_texture = texture cap \<rparr>
              \<lparr> destination_buffer = outputBuffer cap, bytesPerRow = ?p, rowsPerImage = 0 \<rparr> dims"
  from assms(3) have cap: "outputBuffer cap = Buffer (length dev)"
    by (auto simp add: createCapture_eq)
  from assms(3) have "buffer_of dev' (outputBuffer cap) = Some ?d"
    by (auto simp add: createCapture_eq buffer_of_created)
  moreover have "buffer_size ?d = ?p * height dims"
    by simp
  moreover have "calls_since enc (copyToBuffer enc (texture cap) (outputBuffer cap) dims) = [?c]"
    by (rule calls_since_copyToBuffer)
  moreover have "destination_buffer (destination ?c) = outputBuffer cap"
    by simp
  moreover have "bytesPerRow (destination ?c) * height (copySize ?c) = buffer_size ?d"
    by simp
  moreover have "bytesPerRow (destination ?c) * (height (copySize ?c) - 1) + 4 * width (copySize ?c)
      \<le> buffer_size ?d"
    using padded_ge_unpadded [of "width dims"] by (simp add: algebra_simps)
  ultimately show ?thesis
    by blast
qed

theorem createCapture_buffer_fits_copy_witness:
  "1 \<le> width \<lparr> width = 200, height = 200 \<rparr>
   \<and> 1 \<le> height \<lparr> width = 200, height = 200 \<rparr>
   \<and> createCapture
         \<lparr> GPUBufferUsage = \<lparr> MAP_READ = 1, COPY_DST = 8 \<rparr>,
           GPUTextureUsage = \<lparr> RENDER_ATTACHMENT = 16, COPY_SRC = 1 \<rparr> \<rparr>
         [] \<lparr> width = 200, height = 200 \<rparr> =
       ([CreateBuffer
           \<lparr> buffer_label = ''Capture'', buffer_size = 204800, buffer_usage = 9 \<rparr>,
         CreateTexture
           \<lparr> texture_label = ''Capture'', texture_size = \<lparr> width = 200, height = 200 \<rparr>,
             texture_format = ''rgba8unorm-srgb'', texture_usage = 17 \<rparr>],
        \<lparr> outputBuffer = Buffer 0, texture = Texture 1 \<rparr>)
   \<and> (\<exists>d c. buffer_of
                [CreateBuffer
                   \<lparr> buffer_label = ''Capture'', buffer_size = 204800, buffer_usage = 9 \<rparr>,
                 CreateTexture
                   \<lparr> texture_label = ''Capture'',
                     texture_size = \<lparr> width = 200, height = 200 \<rparr>,
                     texture_format = ''rgba8unorm-srgb'', texture_usage = 17 \<rparr>]
                (Buffer 0) = Some d
          \<and> buffer_size d = 204800
          \<and> calls_since []
               (copyToBuffer [] (Texture 1) (Buffer 0) \<lparr> width = 200, height = 200 \<rparr>) = [c]
          \<and> destination_buffer (destination c) = Buffer 0
          \<and> bytesPerRow (destination c) * height (copySize c) = 204800
          \<and> bytesPerRow (destination c) * (height (copySize c) - 1) + 4 * width (copySize c)
               \<le> 204800)"
proof -
  let ?dims = "\<lparr> width = 200, height = 200 \<rparr>"
  let ?g = "\<lparr> GPUBufferUsage = \<lparr> MAP_READ = 1, COPY_DST = 8 \<rparr>,
             GPUTextureUsage = \<lparr> RENDER_ATTACHMENT = 16, COPY_SRC = 1 \<rparr> \<rparr>"
  let ?dev' = "[CreateBuffer
                  \<lparr> buffer_label = ''Capture'', buffer_size = 204800, buffer_usage = 9 \<rparr>,
                CreateTexture
                  \<lparr> texture_label = ''Capture'', texture_size = ?dims,
                    texture_format = ''rgba8unorm-srgb'', texture_usage = 17 \<rparr>]"
  let ?cap = "\<lparr> outputBuffer = Buffer 0, texture = Texture 1 \<rparr>"
  have p: "padded (getRowPadding 200) = 1024"
    by (simp add: getRowPadding_def Let_def js_rem_def)
  have h1: "1 \<le> width ?dims" and h2: "1 \<le> height ?dims"
    by simp_all
  have h3: "createCapture ?g [] ?dims = (?dev', ?cap)"
    by (simp add: createCapture_def createBuffer_def createTexture_def Let_def p)
  from createCapture_buffer_fits_copy [OF h1 h2 h3, of "[]"] p
  have "\<exists>d c. buffer_of ?dev' (Buffer 0) = Some d
          \<and> buffer_size d = 204800
          \<and> calls_since [] (copyToBuffer [] (Texture 1) (Buffer 0) ?dims) = [c]
          \<and> destination_buffer (destination c) = Buffer 0
          \<and> bytesPerRow (destination c) * height (copySize c) = 204800
          \<and> bytesPerRow (destination c) * (height (copySize c) - 1) + 4 * width (copySize c)
               \<le> 204800"
    by auto
  with h1 h2 h3 show ?thesis
    by blast
qed


section \<open>Properties of the conformance-suite shim\<close>

lemma call_unchanged: "call c s = (s, Inr Undefined)"
  by (cases c) (simp_all add: pushErrorScope_def popErrorScope_def)

lemma run_unchanged: "run cs s = (s, replicate (length cs) (Inr Undefined))"
  by (induction cs) (simp_all add: call_unchanged)

text \<open>
  Claim C4. For every filter \<open>f\<close>, pushing an error scope with \<open>f\<close> and popping
  it, with nothing in between, gives the no-error outcome: the push returns
  \<^verbatim>\<open>undefined\<close> and throws nothing, so the pop is reached; the pop returns
  \<^verbatim>\<open>undefined\<close>, which is what awaiting it resumes with; and the device is as
  it was.
\<close>

theorem pushErrorScope_popErrorScope_no_error:
  "pushErrorScope s [f] = (s, Inr Undefined)
   \<and> popErrorScope (fst (pushErrorScope s [f])) [] = (s, Inr Undefined)
   \<and> run [PushErrorScope f, PopErrorScope] s = (s, [Inr Undefined, Inr Undefined])
   \<and> fst (run [PushErrorScope f, PopErrorScope] s) = s
   \<and> await (last (snd (run [PushErrorScope f, PopErrorScope] s))) = Resolved Undefined
   \<and> no_error (await (last (snd (run [PushErrorScope f, PopErrorScope] s))))"
  by (simp add: pushErrorScope_def popErrorScope_def)

text \<open>
  Claim C5, as stated: \<^verbatim>\<open>popErrorScope\<close> pops the scope pushed last and resolves
  with the first matching error raised since, and with no scope open it reports a
  usage error instead of giving a silent result. The code does not: a pop that is
  the first call on a device, when no scope was ever pushed, returns
  \<^verbatim>\<open>undefined\<close> like any other, throws nothing and so gives the no-error outcome.
\<close>

theorem popErrorScope_empty_stack_silent:
  "snd (run [PopErrorScope]
          (load \<lparr> GPUBufferUsage = \<lparr> MAP_READ = 1, COPY_DST = 8 \<rparr>,
                  GPUTextureUsage = \<lparr> RENDER_ATTACHMENT = 16, COPY_SRC = 1 \<rparr> \<rparr>
             :: (unit, js_value) shim)) = [Inr Undefined]
   \<and> no_error (await (snd (popErrorScope
          (load \<lparr> GPUBufferUsage = \<lparr> MAP_READ = 1, COPY_DST = 8 \<rparr>,
                  GPUTextureUsage = \<lparr> RENDER_ATTACHMENT = 16, COPY_SRC = 1 \<rparr> \<rparr>
             :: (unit, js_value) shim) [])))"
  by (simp add: pushErrorScope_def popErrorScope_def)

text \<open>
  Claim C5, amended: \<^verbatim>\<open>popErrorScope\<close> reads neither its arguments nor the
  device, changes nothing and returns \<^verbatim>\<open>undefined\<close>, the no-error outcome, in
  every state; after any sequence of pushes and pops every call has returned
  \<^verbatim>\<open>undefined\<close> and the device is as it was. No call reports a usage error.
\<close>

theorem popErrorScope_always_undefined:
  "popErrorScope s args = (s, Inr Undefined)
   \<and> no_error (await (snd (popErrorScope s args)))
   \<and> run cs s = (s, replicate (length cs) (Inr Undefined))"
  by (simp add: popErrorScope_def run_unchanged)

lemma lost_load_resolvers: "resolvers (GPUDevice_lost (load g)) = []"
  by (simp add: load_def new_Promise_def empty_executor_def)

lemma lost_load_pending: "promise_state (GPUDevice_lost (load g)) = Pending"
  by (simp add: load_def new_Promise_def empty_executor_def)

lemma device_unusable_no_resolvers:
  assumes "resolvers (GPUDevice_lost m) = []"
  shows "resolvers (GPUDevice_lost (device_unusable ev m)) = []"
    and "promise_state (GPUDevice_lost (device_unusable ev m)) = promise_state (GPUDevice_lost m)"
  using assms by (simp_all add: device_unusable_def notify_def)

lemma fold_device_unusable:
  "resolvers (GPUDevice_lost m) = [] \<Longrightarrow>
     promise_state (GPUDevice_lost (fold device_unusable evs m)) = promise_state (GPUDevice_lost m)"
  by (induction evs arbitrary: m) (simp_all add: device_unusable_no_resolvers)

text \<open>
  Claim C6, as stated: for every device the \<^verbatim>\<open>lost\<close> future resolves exactly
  once when the device becomes unusable, and cannot stay unresolved after that. The
  code does not: after the explicit destruction of a device its \<^verbatim>\<open>lost\<close>
  promise is still pending.
\<close>

theorem lost_pending_after_destroy:
  "promise_state
     (lost (device_unusable Destroyed
              (load \<lparr> GPUBufferUsage = \<lparr> MAP_READ = 1, COPY_DST = 8 \<rparr>,
                      GPUTextureUsage = \<lparr> RENDER_ATTACHMENT = 16, COPY_SRC = 1 \<rparr> \<rparr>
                 :: (unit, device_event) shim)) 0) = Pending"
  by (simp add: lost_def device_unusable_def notify_def load_def new_Promise_def
      empty_executor_def)

text \<open>
  Claim C6, amended: for every device \<^verbatim>\<open>lost\<close> is the one promise that the
  shim creates when it loads. Its executor neither calls nor keeps a resolving
  function, so the promise is pending and stays pending after every sequence of
  events that make a device unusable: it is never resolved, and awaiting it does not
  resume.
\<close>

theorem lost_never_resolves:
  "promise_state (lost (fold device_unusable evs (load g)) dev) = Pending
   \<and> await_promise (lost (fold device_unusable evs (load g)) dev) = Unsettled
   \<and> lost m dev = lost m dev'"
  by (simp add: lost_def fold_device_unusable lost_load_resolvers lost_load_pending)

text \<open>
  Claim C7, as stated: the feature set of an adapter is immutable after discovery;
  no operation on any adapter or any other object changes the feature set that an
  adapter shows. The code does not: the feature set is an ordinary \<^verbatim>\<open>Set\<close>
  shared through the prototype, and adding a tag through adapter 0 changes the
  feature set that adapter 1 shows.
\<close>

theorem features_changed_by_add:
  "features
     (features_add 0 ''depth-clip-control''
        (load \<lparr> GPUBufferUsage = \<lparr> MAP_READ = 1, COPY_DST = 8 \<rparr>,
                GPUTextureUsage = \<lparr> RENDER_ATTACHMENT = 16, COPY_SRC = 1 \<rparr> \<rparr>
           :: (unit, js_value) shim)) 1
   \<noteq> features
       (load \<lparr> GPUBufferUsage = \<lparr> MAP_READ = 1, COPY_DST = 8 \<rparr>,
               GPUTextureUsage = \<lparr> RENDER_ATTACHMENT = 16, COPY_SRC = 1 \<rparr> \<rparr>
          :: (unit, js_value) shim) 1"
  by (simp add: features_def features_add_def load_def new_Set_def Set_add_def)

text \<open>
  Claim C7, amended: every adapter shows the same feature set, the one
  \<^verbatim>\<open>Set\<close> that the shim creates when it loads; it is empty then, and the
  error-scope methods of the shim leave it as it is. It is not immutable: adding a
  tag through the \<^verbatim>\<open>features\<close> of any adapter adds it to the set that every
  adapter shows.
\<close>

theorem features_shared_mutable_set:
  "features (load g) a = new_Set
   \<and> features m a = features m b
   \<and> features (fst (run cs m)) a = features m a
   \<and> features (features_add a tag m) b = Set_add tag (features m b)"
  by (simp add: features_def features_add_def load_def run_unchanged)

text \<open>
  Claim C10. The exported \<^verbatim>\<open>create\<close> is constant: for any two flag values it
  returns the same object, the module \<^verbatim>\<open>gpu\<close> of the binding.
\<close>

theorem create_constant:
  "create m f1 = create m f2 \<and> create (load g) f1 = g"
  by (simp add: create_def load_def)

end
